theory Spec2Isabelle
  imports Main "HOL-Library.Word"
begin

unbundle bit_operations_syntax

section \<open>The IP-UCD driver (\<open>ip-ucd.h\<close>)\<close>

text \<open>
  The driver is a header-only C++ class \<open>IPUCD::v1_0::HW\<close> over the address-space
  framework \<open>vwpp-3.0\<close>. The framework is not part of the repository: the driver consumes
  its accessors \<open>get\<close>, \<open>set\<close>, \<open>get_element\<close>, \<open>set_element\<close> and \<open>readMem\<close>. The model
  below runs the driver against a simulated module: every accessor call is appended to a
  trace, a read returns what the simulated module holds, and a write stores its value.
  The lock argument that every method takes is a token showing that the caller holds the
  mutex; the model is sequential and leaves it out.
\<close>

type_synonym uint8_t = "8 word"
type_synonym uint16_t = "16 word"
type_synonym uint32_t = "32 word"

subsection \<open>\<open>FifoEntry\<close>\<close>

text \<open>
  \<^verbatim>\<open>class FifoEntry { static uint32_t const NO_VALUE = 0xffffffff; uint32_t const value; ... }\<close>
\<close>

datatype FifoEntry = FifoEntry (entry_value: uint32_t)

definition NO_VALUE :: uint32_t where
  "NO_VALUE = 0xffffffff"

text \<open>The constructor's default argument: \<^verbatim>\<open>explicit FifoEntry(uint32_t v = NO_VALUE)\<close>.\<close>

definition FifoEntry_default :: FifoEntry where
  "FifoEntry_default = FifoEntry NO_VALUE"

text \<open>\<^verbatim>\<open>uint8_t event() const { return uint8_t(value); }\<close>\<close>

definition event :: "FifoEntry \<Rightarrow> uint8_t" where
  "event e = ucast (entry_value e)"

text \<open>\<^verbatim>\<open>uint32_t stamp() const { return value >> 8; }\<close>\<close>

definition stamp :: "FifoEntry \<Rightarrow> uint32_t" where
  "stamp e = drop_bit 8 (entry_value e)"

text \<open>\<^verbatim>\<open>bool isValid() const { return value != NO_VALUE; }\<close>\<close>

definition isValid :: "FifoEntry \<Rightarrow> bool" where
  "isValid e = (entry_value e \<noteq> NO_VALUE)"

subsection \<open>Registers and the simulated module\<close>

text \<open>
  The registers of the A16 space, by width. \<open>RegIdHigh\<close> and \<open>RegIdLow\<close> are the two
  \<open>PROM\<close> locations that \<open>getModuleId\<close> declares locally.
\<close>

datatype reg8 =
    RegIdHigh | RegIdLow | RegMdatIntType | RegMdatBufSwitch | RegFifoWrite | RegFifoClear

datatype reg16 =
    RegControl | RegStatus | RegFtpTSLow | RegFtpTSHigh | RegFifoThreshold

fun offset8 :: "reg8 \<Rightarrow> nat" where
  "offset8 RegIdHigh = 0x89"
| "offset8 RegIdLow = 0x8b"
| "offset8 RegMdatIntType = 0x44"
| "offset8 RegMdatBufSwitch = 0x45"
| "offset8 RegFifoWrite = 0x4a"
| "offset8 RegFifoClear = 0x4b"

fun offset16 :: "reg16 \<Rightarrow> nat" where
  "offset16 RegControl = 0x40"
| "offset16 RegStatus = 0x42"
| "offset16 RegFtpTSLow = 0x46"
| "offset16 RegFtpTSHigh = 0x48"
| "offset16 RegFifoThreshold = 0x4c"

text \<open>Offsets in the A32 space: \<open>regTrigger\<close> (256 entries of 16 bits) and \<open>regFifo\<close>.\<close>

definition regTrigger_offset :: nat where
  "regTrigger_offset = 0x0"

definition regFifo_offset :: nat where
  "regFifo_offset = 0x1200"

text \<open>\<^verbatim>\<open>enum ControlCommand\<close> and the value each command has.\<close>

datatype ControlCommand =
    NoOp | EnableTCLK | DisableTCLK | EnableMDAT | DisableMDAT | MDAT_Buf0 | MDAT_Buf1
  | EnableMDAT_BufAuto | DisableMDAT_BufAuto | SW_Interrupt | SW_Reset

fun command_code :: "ControlCommand \<Rightarrow> uint16_t" where
  "command_code NoOp = 0x0"
| "command_code EnableTCLK = 0x1"
| "command_code DisableTCLK = 0x2"
| "command_code EnableMDAT = 0x3"
| "command_code DisableMDAT = 0x4"
| "command_code MDAT_Buf0 = 0x5"
| "command_code MDAT_Buf1 = 0x6"
| "command_code EnableMDAT_BufAuto = 0x7"
| "command_code DisableMDAT_BufAuto = 0x8"
| "command_code SW_Interrupt = 0x9"
| "command_code SW_Reset = 0xff"

text \<open>\<^verbatim>\<open>enum Status\<close>: the bits of the status register.\<close>

datatype Status =
    MDatParityError | MDatBuffer0_1 | FIFOUnderflow | FIFOOverflow | FIFOFull | FIFOThreshold
  | FIFOEmpty | TclkParityError | MdatBuffer1Enabled | MdatBuffer0Enabled
  | MdatAutoBufferEnabled | MDatEnabled | TclkEnabled | MDatPresent | TclkPresent

fun status_bit :: "Status \<Rightarrow> uint16_t" where
  "status_bit MDatParityError = 0x4000"
| "status_bit MDatBuffer0_1 = 0x2000"
| "status_bit FIFOUnderflow = 0x1000"
| "status_bit FIFOOverflow = 0x0800"
| "status_bit FIFOFull = 0x0400"
| "status_bit FIFOThreshold = 0x0200"
| "status_bit FIFOEmpty = 0x0100"
| "status_bit TclkParityError = 0x0080"
| "status_bit MdatBuffer1Enabled = 0x0040"
| "status_bit MdatBuffer0Enabled = 0x0020"
| "status_bit MdatAutoBufferEnabled = 0x0010"
| "status_bit MDatEnabled = 0x0008"
| "status_bit TclkEnabled = 0x0004"
| "status_bit MDatPresent = 0x0002"
| "status_bit TclkPresent = 0x0001"

text \<open>
  One entry of the trace per accessor call, in the order the driver makes them.
  \<open>ReadMem off idx\<close> is the destructive 16-bit read \<open>API::readMem(base, idx)\<close> of the
  register at offset \<open>off\<close> of the A32 space.
\<close>

datatype access =
    Get8 reg8
  | Get16 reg16
  | Set8 reg8 uint8_t
  | Set16 reg16 uint16_t
  | GetElement nat
  | SetElement nat uint16_t
  | ReadMem nat nat

fun is_write :: "access \<Rightarrow> bool" where
  "is_write (Set8 r v) = True"
| "is_write (Set16 r v) = True"
| "is_write (SetElement i v) = True"
| "is_write a = False"

fun is_destructive_read :: "access \<Rightarrow> bool" where
  "is_destructive_read (ReadMem off idx) = True"
| "is_destructive_read a = False"

text \<open>
  The simulated module. \<open>a16_8\<close> and \<open>a16_16\<close> hold the registers of the A16 space and
  \<open>trigger\<close> the trigger map (the driver addresses entries 0 to 255 only). The FIFO
  register is read destructively: the \<open>n\<close>-th 16-bit read since the start returns
  \<open>fifo_words n\<close>, and \<open>fifo_reads\<close> counts the reads made so far.
\<close>

record hw =
  a16_8 :: "reg8 \<Rightarrow> uint8_t"
  a16_16 :: "reg16 \<Rightarrow> uint16_t"
  trigger :: "nat \<Rightarrow> uint16_t"
  fifo_words :: "nat \<Rightarrow> uint16_t"
  fifo_reads :: nat
  trace :: "access list"

text \<open>The accessors of the address-space framework, on the simulated module.\<close>

definition a16_get8 :: "reg8 \<Rightarrow> hw \<Rightarrow> uint8_t \<times> hw" where
  "a16_get8 r h = (a16_8 h r, h\<lparr>trace := trace h @ [Get8 r]\<rparr>)"

definition a16_get16 :: "reg16 \<Rightarrow> hw \<Rightarrow> uint16_t \<times> hw" where
  "a16_get16 r h = (a16_16 h r, h\<lparr>trace := trace h @ [Get16 r]\<rparr>)"

definition a16_set8 :: "reg8 \<Rightarrow> uint8_t \<Rightarrow> hw \<Rightarrow> hw" where
  "a16_set8 r v h = h\<lparr>a16_8 := (a16_8 h)(r := v), trace := trace h @ [Set8 r v]\<rparr>"

definition a16_set16 :: "reg16 \<Rightarrow> uint16_t \<Rightarrow> hw \<Rightarrow> hw" where
  "a16_set16 r v h = h\<lparr>a16_16 := (a16_16 h)(r := v), trace := trace h @ [Set16 r v]\<rparr>"

definition a32_get_element :: "nat \<Rightarrow> hw \<Rightarrow> uint16_t \<times> hw" where
  "a32_get_element i h = (trigger h i, h\<lparr>trace := trace h @ [GetElement i]\<rparr>)"

definition a32_set_element :: "nat \<Rightarrow> uint16_t \<Rightarrow> hw \<Rightarrow> hw" where
  "a32_set_element i v h = h\<lparr>trigger := (trigger h)(i := v), trace := trace h @ [SetElement i v]\<rparr>"

definition readMem :: "nat \<Rightarrow> nat \<Rightarrow> hw \<Rightarrow> uint16_t \<times> hw" where
  "readMem off idx h =
     (fifo_words h (fifo_reads h),
      h\<lparr>fifo_reads := fifo_reads h + 1, trace := trace h @ [ReadMem off idx]\<rparr>)"

text \<open>
  The specialisation \<open>Register<A32, FifoEntry, Offset, R, NoWrite>::read\<close>:
  \<^verbatim>\<open>uint32_t tmp = API::readMem(base, 0);
  return FifoEntry((tmp << 16) | API::readMem(base, 1));\<close>
  The first word is widened to 32 bits before the shift; the second is widened by the
  usual arithmetic conversions before the bitwise or.
\<close>

definition Register_FifoEntry_read :: "nat \<Rightarrow> hw \<Rightarrow> FifoEntry \<times> hw" where
  "Register_FifoEntry_read off h =
     (let (w0, h1) = readMem off 0 h;
          tmp = (ucast w0 :: uint32_t);
          (w1, h2) = readMem off 1 h1
      in (FifoEntry (push_bit 16 tmp OR ucast w1), h2))"

text \<open>\<open>a32.get<regFifo>(lock)\<close>: the framework calls the register's \<open>read\<close>.\<close>

definition a32_get_regFifo :: "hw \<Rightarrow> FifoEntry \<times> hw" where
  "a32_get_regFifo h = Register_FifoEntry_read regFifo_offset h"

subsection \<open>The driver \<open>HW\<close>\<close>

text \<open>The two exceptions the driver throws, with their messages.\<close>

datatype error = logic_error string | runtime_error string

text \<open>
  \<^verbatim>\<open>return ((uint16_t) a16.get<regIdHigh>(lock) << 8) + (uint16_t) a16.get<regIdLow>(lock);\<close>
  Both operands are promoted to \<open>int\<close>, the sum is converted back to \<open>uint16_t\<close>. C++ leaves
  the order of the two reads to the compiler (the source's comment says so), hence the
  parameter \<open>high_first\<close>.
\<close>

definition getModuleId :: "bool \<Rightarrow> hw \<Rightarrow> uint16_t \<times> hw" where
  "getModuleId high_first h =
     (if high_first then
        (let (idHigh, h1) = a16_get8 RegIdHigh h;
             (idLow, h2) = a16_get8 RegIdLow h1
         in (word_of_int (push_bit 8 (uint idHigh) + uint idLow), h2))
      else
        (let (idLow, h1) = a16_get8 RegIdLow h;
             (idHigh, h2) = a16_get8 RegIdHigh h1
         in (word_of_int (push_bit 8 (uint idHigh) + uint idLow), h2)))"

text \<open>
  \<^verbatim>\<open>if (level > 0) a16.set<regFifoThreshold>(lock, level);
  else throw std::logic_error("illegal FIFO threshold value");\<close>
\<close>

definition setFifoThreshold :: "uint8_t \<Rightarrow> hw \<Rightarrow> (error + unit) \<times> hw" where
  "setFifoThreshold level h =
     (if level > 0 then (Inr (), a16_set16 RegFifoThreshold (ucast level) h)
      else (Inl (logic_error ''illegal FIFO threshold value''), h))"

text \<open>\<^verbatim>\<open>void setupInterrupt(IntLock const&) { }\<close>\<close>

definition setupInterrupt :: "hw \<Rightarrow> hw" where
  "setupInterrupt h = h"

text \<open>
  \<^verbatim>\<open>if (trigBit > 7) throw std::logic_error("illegal trigger bit value");
  setupInterrupt(lock);
  uint8_t const mask = 1 << trigBit;
  uint16_t const prev = a32.get_element<regTrigger>(lock, event);
  uint16_t const value = enable ? (prev | mask) : (prev & ~mask);
  a32.set_element<regTrigger>(lock, event, value);\<close>
  The shift and the bitwise operations are carried out on \<open>int\<close> (integer promotion) and
  the results are converted to the type of the variable they initialise.
\<close>

definition adjustTclkReception ::
  "bool \<Rightarrow> uint8_t \<Rightarrow> uint8_t \<Rightarrow> hw \<Rightarrow> (error + unit) \<times> hw" where
  "adjustTclkReception enable ev trigBit h =
     (if trigBit > 7 then (Inl (logic_error ''illegal trigger bit value''), h)
      else
        (let h0 = setupInterrupt h;
             mask = (word_of_int (push_bit (unat trigBit) (1 :: int)) :: uint8_t);
             (prev, h1) = a32_get_element (unat ev) h0;
             v = (if enable then (word_of_int (uint prev OR uint mask) :: uint16_t)
                  else word_of_int (uint prev AND NOT (uint mask)))
         in (Inr (), a32_set_element (unat ev) v h1)))"

text \<open>
  \<^verbatim>\<open>if (trigBit > 7) throw std::logic_error("illegal trigger bit value");
  uint8_t const mask = 1 << trigBit;
  return (a32.get_element<regTrigger>(lock, event) & mask) != 0;\<close>
\<close>

definition getTclkReception :: "uint8_t \<Rightarrow> uint8_t \<Rightarrow> hw \<Rightarrow> (error + bool) \<times> hw" where
  "getTclkReception ev trigBit h =
     (if trigBit > 7 then (Inl (logic_error ''illegal trigger bit value''), h)
      else
        (let mask = (word_of_int (push_bit (unat trigBit) (1 :: int)) :: uint8_t);
             (cur, h1) = a32_get_element (unat ev) h
         in (Inr ((uint cur AND uint mask) \<noteq> 0), h1)))"

text \<open>
  \<^verbatim>\<open>if (trigBit < 1 || trigBit > 7) throw std::logic_error("illegal trigger bit value");
  a16.set<regFifoClear>(lock, trigBit + 1);\<close>
  \<open>trigBit + 1\<close> is an \<open>int\<close>, converted to the register's \<open>uint8_t\<close>.
\<close>

definition setResetFifoTimestampTrigger :: "uint8_t \<Rightarrow> hw \<Rightarrow> (error + unit) \<times> hw" where
  "setResetFifoTimestampTrigger trigBit h =
     (if trigBit < 1 \<or> trigBit > 7 then (Inl (logic_error ''illegal trigger bit value''), h)
      else (Inr (), a16_set8 RegFifoClear (word_of_int (uint trigBit + 1)) h))"

text \<open>The same with \<open>regFifoWrite\<close>.\<close>

definition setWriteFifoTrigger :: "uint8_t \<Rightarrow> hw \<Rightarrow> (error + unit) \<times> hw" where
  "setWriteFifoTrigger trigBit h =
     (if trigBit < 1 \<or> trigBit > 7 then (Inl (logic_error ''illegal trigger bit value''), h)
      else (Inr (), a16_set8 RegFifoWrite (word_of_int (uint trigBit + 1)) h))"

text \<open>
  \<^verbatim>\<open>uint16_t const temp = a16.get<regStatus>(lock);
  a16.set<regStatus>(lock, temp);
  return Status(temp);\<close>
  The result is the bit mask read, as a 16-bit word.
\<close>

definition getStatus :: "hw \<Rightarrow> uint16_t \<times> hw" where
  "getStatus h =
     (let (temp, h1) = a16_get16 RegStatus h;
          h2 = a16_set16 RegStatus temp h1
      in (temp, h2))"

text \<open>
  \<^verbatim>\<open>if (UNLIKELY((a16.get<regStatus>(lock) & FIFOEmpty) == 0))
      return a32.get<regFifo>(lock);
  else
      return FifoEntry();\<close>
\<close>

definition readFifo :: "hw \<Rightarrow> FifoEntry \<times> hw" where
  "readFifo h =
     (let (st, h1) = a16_get16 RegStatus h
      in if st AND status_bit FIFOEmpty = 0 then a32_get_regFifo h1
         else (FifoEntry_default, h1))"

text \<open>
  The loop of the constructor:
  \<^verbatim>\<open>for (size_t ii = 0; ii < 256; ++ii) a32.set_element<regTrigger>(lock, ii, 0x00);\<close>
\<close>

function clearTriggers :: "nat \<Rightarrow> hw \<Rightarrow> hw" where
  "clearTriggers ii h =
     (if ii < 256 then clearTriggers (ii + 1) (a32_set_element ii 0x00 h) else h)"
  by pat_completeness auto
termination
  by (relation "measure (\<lambda>(ii, h). 256 - ii)") auto

text \<open>
  The constructor \<open>HW::HW\<close>, after the two address-space handles are bound:
  \<^verbatim>\<open>if (getModuleId(lock) != 0xbb15) throw std::runtime_error("IP-UCD not found at A16 offset");
  a16.set<regControl>(lock, SW_Reset);
  a16.set<regFifoWrite>(lock, 0x00);
  a16.set<regFifoClear>(lock, 0x00);
  for (...) ...
  a16.set<regControl>(lock, EnableTCLK);\<close>
\<close>

definition HW_construct :: "bool \<Rightarrow> hw \<Rightarrow> (error + unit) \<times> hw" where
  "HW_construct high_first h =
     (let (ident, h1) = getModuleId high_first h
      in if ident \<noteq> 0xbb15 then (Inl (runtime_error ''IP-UCD not found at A16 offset''), h1)
         else
           (let h2 = a16_set16 RegControl (command_code SW_Reset) h1;
                h3 = a16_set8 RegFifoWrite 0x00 h2;
                h4 = a16_set8 RegFifoClear 0x00 h3;
                h5 = clearTriggers 0 h4;
                h6 = a16_set16 RegControl (command_code EnableTCLK) h5
            in (Inr (), h6)))"

text \<open>The accesses an operation added to the trace.\<close>

definition issued :: "hw \<Rightarrow> hw \<Rightarrow> access list" where
  "issued h h' = drop (length (trace h)) (trace h')"

text \<open>
  The reads that \<open>getModuleId\<close> makes, in either order of evaluation.
\<close>

definition id_reads :: "bool \<Rightarrow> access list" where
  "id_reads high_first =
     (if high_first then [Get8 RegIdHigh, Get8 RegIdLow] else [Get8 RegIdLow, Get8 RegIdHigh])"

text \<open>
  Two simulated modules for the concrete runs below: one whose registers are all zero, and
  one whose PROM holds the identity \<open>0xbb15\<close> of an IP-UCD.
\<close>

definition blank_hw :: hw where
  "blank_hw = \<lparr>a16_8 = (\<lambda>r. 0), a16_16 = (\<lambda>r. 0), trigger = (\<lambda>i. 0),
                fifo_words = (\<lambda>n. 0), fifo_reads = 0, trace = []\<rparr>"

definition ipucd_hw :: hw where
  "ipucd_hw = blank_hw\<lparr>a16_8 := (\<lambda>r. 0)(RegIdHigh := 0xbb, RegIdLow := 0x15)\<rparr>"

text \<open>
  A module with one entry waiting in the FIFO (status: TCLK present and enabled, FIFO not
  empty), one whose status has the FIFO-empty bit set, and one in whose trigger map event
  2 already fires trigger 3.
\<close>

definition fifo_hw :: hw where
  "fifo_hw = ipucd_hw\<lparr>a16_16 := (\<lambda>r. 0)(RegStatus := 0x0005),
                       fifo_words := (\<lambda>n. if n = 0 then 0x0012 else if n = 1 then 0x3402 else 0)\<rparr>"

definition empty_fifo_hw :: hw where
  "empty_fifo_hw = ipucd_hw\<lparr>a16_16 := (\<lambda>r. 0)(RegStatus := 0x0105)\<rparr>"

definition trig_hw :: hw where
  "trig_hw = ipucd_hw\<lparr>trigger := (\<lambda>i. 0)(2 := 0x0008)\<rparr>"

text \<open>The writes that address the status register.\<close>

fun writes_status :: "access \<Rightarrow> bool" where
  "writes_status (Set16 r v) = (r = RegStatus)"
| "writes_status a = False"


section \<open>Properties of \<open>FifoEntry\<close>\<close>

lemma ucast_32_8_eq_and: "(ucast (ucast (w :: uint32_t) :: uint8_t) :: uint32_t) = w AND 0xFF"
proof -
  have "(ucast (ucast w :: uint8_t) :: uint32_t) = w AND mask 8"
    by (rule bit_word_eqI) (auto simp: bit_simps)
  then show ?thesis by (simp add: mask_numeral)
qed

text \<open>
  C3. For every 32-bit word \<open>w\<close> other than \<open>0xFFFFFFFF\<close>, the entry built from \<open>w\<close> is
  valid, its event is \<open>w & 0xFF\<close> (compared as 32-bit values, as C++ does) and its stamp is
  \<open>w >> 8\<close>; the entry built from \<open>0xFFFFFFFF\<close> and the default entry are not valid.
\<close>

theorem FifoEntry_decoding:
  "(w \<noteq> 0xFFFFFFFF \<longrightarrow>
      isValid (FifoEntry w) \<and>
      (ucast (event (FifoEntry w)) :: uint32_t) = w AND 0xFF \<and>
      stamp (FifoEntry w) = drop_bit 8 w) \<and>
   \<not> isValid (FifoEntry 0xFFFFFFFF) \<and>
   \<not> isValid FifoEntry_default"
  by (simp add: isValid_def event_def stamp_def NO_VALUE_def FifoEntry_default_def
      ucast_32_8_eq_and)

theorem FifoEntry_decoding_witness:
  "(0x00ABCD02 :: uint32_t) \<noteq> 0xFFFFFFFF \<and>
   isValid (FifoEntry 0x00ABCD02) \<and>
   (ucast (event (FifoEntry 0x00ABCD02)) :: uint32_t) = 0x02 \<and>
   stamp (FifoEntry 0x00ABCD02) = 0xABCD"
  using FifoEntry_decoding [of "0x00ABCD02"] by simp

text \<open>
  C10. The accessors are total and do not look at validity: on the entry built from
  \<open>0xFFFFFFFF\<close> and on the default entry, \<open>event\<close> is \<open>0xFF\<close> and \<open>stamp\<close> is \<open>0xFFFFFF\<close>,
  although neither entry is valid.
\<close>

theorem FifoEntry_accessors_on_invalid:
  "event (FifoEntry 0xFFFFFFFF) = 0xFF \<and> stamp (FifoEntry 0xFFFFFFFF) = 0xFFFFFF \<and>
   event FifoEntry_default = 0xFF \<and> stamp FifoEntry_default = 0xFFFFFF \<and>
   \<not> isValid (FifoEntry 0xFFFFFFFF) \<and> \<not> isValid FifoEntry_default"
  by (simp add: event_def stamp_def isValid_def FifoEntry_default_def NO_VALUE_def)

section \<open>Integer promotion\<close>

text \<open>
  The driver's bitwise expressions are evaluated on \<open>int\<close> and converted back; these
  lemmas give the same results on words.
\<close>

lemma or_promoted:
  "(word_of_int (uint (p :: uint16_t) OR uint (m :: uint8_t)) :: uint16_t) = p OR ucast m"
  by (rule bit_word_eqI) (auto simp: bit_simps)

lemma and_not_promoted:
  "(word_of_int (uint (p :: uint16_t) AND NOT (uint (m :: uint8_t))) :: uint16_t) = p AND NOT (ucast m)"
  by (rule bit_word_eqI) (auto simp: bit_simps)

lemma trig_le_7: "(B :: uint8_t) \<le> 7 \<Longrightarrow> unat B \<le> 7"
  by (simp add: word_le_nat_alt)

lemma mask_promoted:
  "(B :: uint8_t) \<le> 7 \<Longrightarrow>
   (ucast (word_of_int (push_bit (unat B) (1 :: int)) :: uint8_t) :: uint16_t) = push_bit (unat B) 1"
  apply (drule trig_le_7)
  apply (rule bit_word_eqI)
  apply (auto simp: bit_simps)
  done

lemma id_digits:
  "0 \<le> a \<Longrightarrow> a < 256 \<Longrightarrow> 0 \<le> b \<Longrightarrow> b < 256 \<Longrightarrow>
   (256 * a + b = 47893) = (a = 187 \<and> b = 21)" for a b :: int
  by arith

lemma module_id_eq:
  "(word_of_int (push_bit 8 (uint (hi :: uint8_t)) + uint (lo :: uint8_t)) :: uint16_t) = 0xbb15
   \<longleftrightarrow> hi = 0xbb \<and> lo = 0x15"
proof -
  have hi: "0 \<le> uint hi" "uint hi < 256" and lo: "0 \<le> uint lo" "uint lo < 256"
    using uint_bounded [of hi] uint_bounded [of lo] by simp_all
  let ?n = "push_bit 8 (uint hi) + uint lo"
  have n: "?n = 256 * uint hi + uint lo" by (simp add: push_bit_eq_mult)
  have "0 \<le> ?n" "?n < 65536" using hi lo unfolding n by auto
  then have "take_bit 16 ?n = ?n"
    by (intro take_bit_int_eq_self) simp_all
  then have u: "uint (word_of_int ?n :: uint16_t) = ?n"
    by (simp only: uint_word_of_int_eq len_of_numeral_defs) simp
  have "(word_of_int ?n :: uint16_t) = 0xbb15 \<longleftrightarrow> uint (word_of_int ?n :: uint16_t) = uint (0xbb15 :: uint16_t)"
    by (simp only: word_uint_eq_iff)
  also have "\<dots> \<longleftrightarrow> ?n = 0xbb15"
    unfolding u by simp
  also have "\<dots> \<longleftrightarrow> uint hi = 0xbb \<and> uint lo = 0x15"
    unfolding n using id_digits [OF hi lo] by simp
  also have "\<dots> \<longleftrightarrow> hi = 0xbb \<and> lo = 0x15"
    by (simp add: word_uint_eq_iff)
  finally show ?thesis .
qed

section \<open>Construction\<close>

declare clearTriggers.simps [simp del]

lemma getModuleId_snd:
  "snd (getModuleId high_first h) = h\<lparr>trace := trace h @ id_reads high_first\<rparr>"
  by (simp add: getModuleId_def a16_get8_def id_reads_def)

lemma getModuleId_fst:
  "fst (getModuleId high_first h) =
     word_of_int (push_bit 8 (uint (a16_8 h RegIdHigh)) + uint (a16_8 h RegIdLow))"
  by (simp add: getModuleId_def a16_get8_def)

lemma getModuleId_matches:
  "fst (getModuleId high_first h) = 0xbb15 \<longleftrightarrow>
     a16_8 h RegIdHigh = 0xbb \<and> a16_8 h RegIdLow = 0x15"
  by (simp only: getModuleId_fst module_id_eq)

lemma HW_construct_mismatch:
  "fst (getModuleId high_first h) \<noteq> 0xbb15 \<Longrightarrow>
   HW_construct high_first h =
     (Inl (runtime_error ''IP-UCD not found at A16 offset''), snd (getModuleId high_first h))"
  by (simp add: HW_construct_def case_prod_beta)

lemma HW_construct_match:
  "fst (getModuleId high_first h) = 0xbb15 \<Longrightarrow>
   HW_construct high_first h =
     (Inr (),
      a16_set16 RegControl (command_code EnableTCLK)
        (clearTriggers 0
          (a16_set8 RegFifoClear 0x00
            (a16_set8 RegFifoWrite 0x00
              (a16_set16 RegControl (command_code SW_Reset) (snd (getModuleId high_first h)))))))"
  by (simp add: HW_construct_def case_prod_beta Let_def)

lemma clearTriggers_eq:
  "ii \<le> 256 \<Longrightarrow>
   clearTriggers ii h =
     h\<lparr>trigger := (\<lambda>i. if ii \<le> i \<and> i < 256 then 0 else trigger h i),
       trace := trace h @ map (\<lambda>i. SetElement i 0) [ii..<256]\<rparr>"
proof (induction ii h rule: clearTriggers.induct)
  case (1 ii h)
  show ?case
  proof (cases "ii < 256")
    case True
    define h' where "h' = a32_set_element ii 0x00 h"
    have step: "clearTriggers ii h = clearTriggers (ii + 1) h'"
      using True by (subst clearTriggers.simps) (simp add: h'_def)
    have IH: "clearTriggers (ii + 1) h' =
        h'\<lparr>trigger := (\<lambda>i. if ii + 1 \<le> i \<and> i < 256 then 0 else trigger h' i),
           trace := trace h' @ map (\<lambda>i. SetElement i 0) [ii + 1..<256]\<rparr>"
      unfolding h'_def using True by (intro "1.IH") simp_all
    have trig: "(\<lambda>i. if ii + 1 \<le> i \<and> i < 256 then 0 else trigger h' i) =
                (\<lambda>i. if ii \<le> i \<and> i < 256 then 0 else trigger h i)"
      using True by (auto simp: fun_eq_iff h'_def a32_set_element_def)
    have upt: "[ii..<256] = ii # [ii + 1..<256]"
      using True by (simp add: upt_conv_Cons)
    show ?thesis
      unfolding step IH trig upt by (simp add: h'_def a32_set_element_def)
  next
    case False
    with "1.prems" have ii: "ii = 256" by simp
    have "(\<lambda>i. if (256 :: nat) \<le> i \<and> i < 256 then 0 else trigger h i) = trigger h"
      by (auto simp: fun_eq_iff)
    then show ?thesis
      unfolding ii by (subst clearTriggers.simps) simp
  qed
qed

text \<open>
  C1. Construction reads the module identity first. If the PROM does not hold \<open>0xbb15\<close>,
  construction fails with the runtime error and the module is as before but for the two
  identity reads in the trace: no register was written. If it does, construction succeeds
  and its accesses are, in order: the two identity reads, one write of \<open>SW_Reset\<close> to the
  control register, a zero to \<open>regFifoWrite\<close>, a zero to \<open>regFifoClear\<close>, a zero to each
  of the 256 trigger-map entries in ascending order, and one write of \<open>EnableTCLK\<close> to the
  control register. The identity reads contain no write.
\<close>

theorem HW_construct_protocol:
  "(\<not> (a16_8 h RegIdHigh = 0xbb \<and> a16_8 h RegIdLow = 0x15) \<longrightarrow>
      HW_construct high_first h =
        (Inl (runtime_error ''IP-UCD not found at A16 offset''),
         h\<lparr>trace := trace h @ id_reads high_first\<rparr>)) \<and>
   (a16_8 h RegIdHigh = 0xbb \<and> a16_8 h RegIdLow = 0x15 \<longrightarrow>
      fst (HW_construct high_first h) = Inr () \<and>
      trace (snd (HW_construct high_first h)) =
        trace h @ id_reads high_first @
        [Set16 RegControl 0xff, Set8 RegFifoWrite 0, Set8 RegFifoClear 0] @
        map (\<lambda>ii. SetElement ii 0) [0..<256] @
        [Set16 RegControl 1]) \<and>
   filter is_write (id_reads high_first) = []"
proof (cases "a16_8 h RegIdHigh = 0xbb \<and> a16_8 h RegIdLow = 0x15")
  case True
  then have "fst (getModuleId high_first h) = 0xbb15"
    by (simp only: getModuleId_matches)
  from HW_construct_match [OF this] True show ?thesis
    by (simp add: getModuleId_snd clearTriggers_eq a16_set16_def a16_set8_def id_reads_def)
next
  case False
  then have "fst (getModuleId high_first h) \<noteq> 0xbb15"
    by (simp only: getModuleId_matches not_False_eq_True)
  from HW_construct_mismatch [OF this] False show ?thesis
    by (simp add: getModuleId_snd id_reads_def)
qed

theorem HW_construct_protocol_witness:
  "HW_construct True blank_hw =
     (Inl (runtime_error ''IP-UCD not found at A16 offset''),
      blank_hw\<lparr>trace := [Get8 RegIdHigh, Get8 RegIdLow]\<rparr>) \<and>
   fst (HW_construct True ipucd_hw) = Inr () \<and>
   trace (snd (HW_construct True ipucd_hw)) =
     [Get8 RegIdHigh, Get8 RegIdLow, Set16 RegControl 0xff, Set8 RegFifoWrite 0,
      Set8 RegFifoClear 0] @ map (\<lambda>ii. SetElement ii 0) [0..<256] @ [Set16 RegControl 1]"
  using HW_construct_protocol [of blank_hw True] HW_construct_protocol [of ipucd_hw True]
  by (simp add: blank_hw_def ipucd_hw_def id_reads_def)

section \<open>Range checks, thresholds, status and the FIFO\<close>

text \<open>
  C2. \<open>readFifo\<close> reads the status register once. If the FIFO-empty bit is set it returns
  the default entry, which is not valid, and makes no destructive read. If the bit is clear
  it makes exactly one destructive read of the FIFO register, two 16-bit words at indices 0
  and 1 in this order, and returns the entry whose word is the first word shifted left by
  16 bits, or-ed with the second.
\<close>

theorem readFifo_protocol:
  "(a16_16 h RegStatus AND status_bit FIFOEmpty \<noteq> 0 \<longrightarrow>
      readFifo h = (FifoEntry_default, h\<lparr>trace := trace h @ [Get16 RegStatus]\<rparr>) \<and>
      \<not> isValid (fst (readFifo h)) \<and>
      filter is_destructive_read (issued h (snd (readFifo h))) = []) \<and>
   (a16_16 h RegStatus AND status_bit FIFOEmpty = 0 \<longrightarrow>
      readFifo h =
        (FifoEntry (push_bit 16 (ucast (fifo_words h (fifo_reads h))) OR
                    ucast (fifo_words h (fifo_reads h + 1))),
         h\<lparr>fifo_reads := fifo_reads h + 2,
           trace := trace h @ [Get16 RegStatus, ReadMem 0x1200 0, ReadMem 0x1200 1]\<rparr>) \<and>
      filter is_destructive_read (issued h (snd (readFifo h))) =
        [ReadMem 0x1200 0, ReadMem 0x1200 1])"
  by (simp add: readFifo_def a16_get16_def a32_get_regFifo_def Register_FifoEntry_read_def
      readMem_def regFifo_offset_def FifoEntry_default_def isValid_def issued_def)

theorem readFifo_protocol_witness:
  "readFifo empty_fifo_hw = (FifoEntry 0xFFFFFFFF, empty_fifo_hw\<lparr>trace := [Get16 RegStatus]\<rparr>) \<and>
   readFifo fifo_hw =
     (FifoEntry 0x00123402,
      fifo_hw\<lparr>fifo_reads := 2, trace := [Get16 RegStatus, ReadMem 0x1200 0, ReadMem 0x1200 1]\<rparr>)"
  using readFifo_protocol [of empty_fifo_hw] readFifo_protocol [of fifo_hw]
  by (simp add: empty_fifo_hw_def fifo_hw_def ipucd_hw_def blank_hw_def FifoEntry_default_def
      NO_VALUE_def)

text \<open>
  C4. \<open>getStatus\<close> makes exactly two accesses: one read of the status register, then one
  write to the status register of the value read; it returns that value.
\<close>

theorem getStatus_protocol:
  "getStatus h =
     (a16_16 h RegStatus,
      h\<lparr>trace := trace h @ [Get16 RegStatus, Set16 RegStatus (a16_16 h RegStatus)]\<rparr>) \<and>
   issued h (snd (getStatus h)) = [Get16 RegStatus, Set16 RegStatus (fst (getStatus h))]"
  by (simp add: getStatus_def a16_get16_def a16_set16_def issued_def)

text \<open>
  C6. A trigger bit above 7 makes \<open>adjustTclkReception\<close> fail with the logic error, and a
  trigger bit below 1 or above 7 makes \<open>setResetFifoTimestampTrigger\<close> and
  \<open>setWriteFifoTrigger\<close> fail with it; in each case the module and the trace are as
  before the call, so no register was written.
\<close>

theorem trigBit_out_of_range_rejected:
  "(trigBit > 7 \<longrightarrow>
      adjustTclkReception enable ev trigBit h =
        (Inl (logic_error ''illegal trigger bit value''), h)) \<and>
   (trigBit < 1 \<or> trigBit > 7 \<longrightarrow>
      setResetFifoTimestampTrigger trigBit h =
        (Inl (logic_error ''illegal trigger bit value''), h) \<and>
      setWriteFifoTrigger trigBit h =
        (Inl (logic_error ''illegal trigger bit value''), h))"
  by (simp add: adjustTclkReception_def setResetFifoTimestampTrigger_def
      setWriteFifoTrigger_def)

theorem trigBit_out_of_range_rejected_witness:
  "adjustTclkReception True 0x02 8 ipucd_hw =
     (Inl (logic_error ''illegal trigger bit value''), ipucd_hw) \<and>
   setResetFifoTimestampTrigger 0 ipucd_hw =
     (Inl (logic_error ''illegal trigger bit value''), ipucd_hw) \<and>
   setWriteFifoTrigger 8 ipucd_hw =
     (Inl (logic_error ''illegal trigger bit value''), ipucd_hw)"
  using trigBit_out_of_range_rejected [of 8 True "0x02" ipucd_hw]
    trigBit_out_of_range_rejected [of 0 True "0x02" ipucd_hw]
  by simp

lemma level_widened: "unat (ucast (l :: uint8_t) :: uint16_t) = unat l"
proof -
  have "unat l < 2 ^ 8" using unsigned_less [of l] by simp
  then have "unat l < 2 ^ 16" by simp
  then show ?thesis by (simp add: unsigned_ucast_eq take_bit_nat_eq_self)
qed

text \<open>
  C7. \<open>setFifoThreshold 0\<close> fails with the logic error and leaves the module and the
  trace as they were. For a level from 1 to 255 it succeeds and its only access is one
  write of the level, widened to 16 bits without change of value, to the threshold register.
\<close>

theorem setFifoThreshold_contract:
  "setFifoThreshold 0 h = (Inl (logic_error ''illegal FIFO threshold value''), h) \<and>
   (1 \<le> level \<and> level \<le> 255 \<longrightarrow>
      setFifoThreshold level h =
        (Inr (),
         h\<lparr>a16_16 := (a16_16 h)(RegFifoThreshold := ucast level),
           trace := trace h @ [Set16 RegFifoThreshold (ucast level)]\<rparr>) \<and>
      unat (ucast level :: uint16_t) = unat level)"
  by (auto simp: setFifoThreshold_def a16_set16_def level_widened word_greater_zero_iff)

theorem setFifoThreshold_contract_witness:
  "setFifoThreshold 200 ipucd_hw =
     (Inr (),
      ipucd_hw\<lparr>a16_16 := (a16_16 ipucd_hw)(RegFifoThreshold := 200),
               trace := trace ipucd_hw @ [Set16 RegFifoThreshold 200]\<rparr>)"
  using setFifoThreshold_contract [of ipucd_hw 200] by simp

lemma trig_inc_no_wrap: "(b :: uint8_t) \<le> 7 \<Longrightarrow> unat (b + 1) = unat b + 1"
  by (simp add: unat_word_ariths word_le_nat_alt)

text \<open>
  C8. For a trigger bit from 1 to 7, \<open>setResetFifoTimestampTrigger\<close> writes
  \<open>trigBit + 1\<close> to \<open>regFifoClear\<close> and \<open>setWriteFifoTrigger\<close> writes \<open>trigBit + 1\<close> to
  \<open>regFifoWrite\<close>; each is the only access of the call, and the sum does not wrap.
\<close>

theorem special_trigger_encoding:
  "1 \<le> trigBit \<and> trigBit \<le> 7 \<longrightarrow>
     setResetFifoTimestampTrigger trigBit h =
       (Inr (),
        h\<lparr>a16_8 := (a16_8 h)(RegFifoClear := trigBit + 1),
          trace := trace h @ [Set8 RegFifoClear (trigBit + 1)]\<rparr>) \<and>
     setWriteFifoTrigger trigBit h =
       (Inr (),
        h\<lparr>a16_8 := (a16_8 h)(RegFifoWrite := trigBit + 1),
          trace := trace h @ [Set8 RegFifoWrite (trigBit + 1)]\<rparr>) \<and>
     unat (trigBit + 1) = unat trigBit + 1"
  by (auto simp: setResetFifoTimestampTrigger_def setWriteFifoTrigger_def a16_set8_def
      trig_inc_no_wrap)

theorem special_trigger_encoding_witness:
  "setResetFifoTimestampTrigger 7 ipucd_hw =
     (Inr (),
      ipucd_hw\<lparr>a16_8 := (a16_8 ipucd_hw)(RegFifoClear := 8),
               trace := trace ipucd_hw @ [Set8 RegFifoClear 8]\<rparr>) \<and>
   setWriteFifoTrigger 7 ipucd_hw =
     (Inr (),
      ipucd_hw\<lparr>a16_8 := (a16_8 ipucd_hw)(RegFifoWrite := 8),
               trace := trace ipucd_hw @ [Set8 RegFifoWrite 8]\<rparr>)"
  using special_trigger_encoding [of 7 ipucd_hw] by simp

section \<open>The trigger map\<close>

lemma mask_promoted_exp:
  "(B :: uint8_t) \<le> 7 \<Longrightarrow> (ucast (2 ^ unat B :: uint8_t) :: uint16_t) = 2 ^ unat B"
  using mask_promoted [of B] by simp

lemma adjustTclkReception_in_range:
  assumes "trigBit \<le> 7"
  shows "adjustTclkReception enable ev trigBit h =
     (Inr (),
      h\<lparr>trigger := (trigger h)(unat ev :=
            (if enable then trigger h (unat ev) OR push_bit (unat trigBit) 1
             else trigger h (unat ev) AND NOT (push_bit (unat trigBit) 1))),
        trace := trace h @
          [GetElement (unat ev),
           SetElement (unat ev)
             (if enable then trigger h (unat ev) OR push_bit (unat trigBit) 1
              else trigger h (unat ev) AND NOT (push_bit (unat trigBit) 1))]\<rparr>)"
proof -
  from assms have "\<not> trigBit > 7" by simp
  then show ?thesis
    by (simp add: adjustTclkReception_def setupInterrupt_def a32_get_element_def
        a32_set_element_def or_promoted and_not_promoted mask_promoted_exp [OF assms]
        Let_def)
qed

lemma set_then_clear: "(x OR m) AND NOT m = x AND NOT m" for x m :: uint16_t
  by (rule bit_word_eqI) (auto simp: bit_simps)

lemma clear_absent_bit: "\<not> bit x n \<Longrightarrow> x AND NOT (2 ^ n) = x" for x :: uint16_t
  by (rule bit_word_eqI) (auto simp: bit_simps)

lemma cleared_bit: "\<not> bit (x AND NOT (2 ^ n)) n" for x :: uint16_t
  by (auto simp: bit_simps)

text \<open>
  C5, as the code has it. For a trigger bit from 0 to 7: enabling the same event and bit
  twice leaves the trigger map as enabling once does. Disabling after enabling leaves the
  trigger map as before the enabling call except that the bit of that entry is clear; so
  the bit has its earlier value again, and the whole map is restored, when the bit was
  clear before the enabling call.
\<close>

theorem adjustTclkReception_enable_disable:
  assumes "trigBit \<le> 7"
  shows
    "trigger (snd (adjustTclkReception True ev trigBit
                (snd (adjustTclkReception True ev trigBit h)))) =
     trigger (snd (adjustTclkReception True ev trigBit h)) \<and>
     trigger (snd (adjustTclkReception False ev trigBit
                (snd (adjustTclkReception True ev trigBit h)))) =
     (trigger h)(unat ev := trigger h (unat ev) AND NOT (push_bit (unat trigBit) 1)) \<and>
     \<not> bit (trigger (snd (adjustTclkReception False ev trigBit
                (snd (adjustTclkReception True ev trigBit h)))) (unat ev)) (unat trigBit) \<and>
     (\<not> bit (trigger h (unat ev)) (unat trigBit) \<longrightarrow>
        trigger (snd (adjustTclkReception False ev trigBit
                (snd (adjustTclkReception True ev trigBit h)))) = trigger h)"
  by (simp add: adjustTclkReception_in_range [OF assms] set_then_clear cleared_bit
      clear_absent_bit)

theorem adjustTclkReception_enable_disable_witness:
  "trigger (snd (adjustTclkReception True 2 5 (snd (adjustTclkReception True 2 5 trig_hw)))) =
     trigger (snd (adjustTclkReception True 2 5 trig_hw)) \<and>
   trigger (snd (adjustTclkReception False 2 5 (snd (adjustTclkReception True 2 5 trig_hw)))) =
     trigger trig_hw"
proof -
  have r: "(5 :: uint8_t) \<le> 7" by simp
  have b: "\<not> bit (trigger trig_hw (unat (2 :: uint8_t))) (unat (5 :: uint8_t))"
    by (simp add: trig_hw_def)
  from adjustTclkReception_enable_disable [OF r, of 2 trig_hw] b show ?thesis
    by blast
qed

text \<open>
  C5, as stated, fails. When the bit was set before the enabling call, disabling does not
  bring it back: in
  \<open>trig_hw\<close> event 2 fires trigger 3, and after enabling and disabling that pair the bit is
  clear.
\<close>

theorem adjustTclkReception_disable_restores_counterexample:
  "bit (trigger (snd (adjustTclkReception False 2 3
          (snd (adjustTclkReception True 2 3 trig_hw)))) (unat (2 :: uint8_t))) (unat (3 :: uint8_t))
   \<noteq> bit (trigger trig_hw (unat (2 :: uint8_t))) (unat (3 :: uint8_t))"
  by (simp add: adjustTclkReception_def setupInterrupt_def a32_get_element_def
      a32_set_element_def trig_hw_def)

section \<open>Writes to the status register\<close>

lemma issued_append: "trace h' = trace h @ xs \<Longrightarrow> issued h h' = xs"
  by (simp add: issued_def)

lemma HW_construct_issued:
  "issued h (snd (HW_construct high_first h)) =
     id_reads high_first @
     (if fst (getModuleId high_first h) = 0xbb15
      then [Set16 RegControl 0xff, Set8 RegFifoWrite 0, Set8 RegFifoClear 0] @
           map (\<lambda>ii. SetElement ii 0) [0..<256] @ [Set16 RegControl 1]
      else [])"
proof (cases "fst (getModuleId high_first h) = 0xbb15")
  case True
  show ?thesis
    unfolding HW_construct_match [OF True]
    by (rule issued_append)
      (simp add: True getModuleId_snd clearTriggers_eq a16_set16_def a16_set8_def)
next
  case False
  show ?thesis
    unfolding HW_construct_mismatch [OF False]
    by (rule issued_append) (simp add: False getModuleId_snd)
qed

lemma no_status_write_in_clear:
  "filter writes_status (map (\<lambda>ii. SetElement ii 0) xs) = []"
  by (induction xs) simp_all

lemma HW_construct_no_status_write:
  "filter writes_status (issued h (snd (HW_construct high_first h))) = []"
  by (simp add: HW_construct_issued id_reads_def no_status_write_in_clear)

lemma adjustTclkReception_no_status_write:
  "filter writes_status (issued h (snd (adjustTclkReception enable ev trigBit h))) = []"
proof (cases "trigBit \<le> 7")
  case True
  show ?thesis
    unfolding adjustTclkReception_in_range [OF True] by (simp add: issued_def)
next
  case False
  then have "trigBit > 7" by simp
  then show ?thesis
    by (simp add: adjustTclkReception_def issued_def)
qed

lemma getTclkReception_no_status_write:
  "filter writes_status (issued h (snd (getTclkReception ev trigBit h))) = []"
  by (simp add: getTclkReception_def a32_get_element_def issued_def Let_def)

text \<open>
  C9. \<open>readFifo\<close> makes no write at all, so none to the status register, and the A16
  registers of the module hold after the call what they held before. \<open>getStatus\<close> makes
  exactly one write to the status register. No other operation of the driver writes to
  the status register.
\<close>

theorem readFifo_leaves_status:
  "filter is_write (issued h (snd (readFifo h))) = [] \<and>
   a16_16 (snd (readFifo h)) = a16_16 h \<and>
   filter writes_status (issued h (snd (getStatus h))) = [Set16 RegStatus (a16_16 h RegStatus)] \<and>
   filter writes_status (issued h (snd (HW_construct high_first h))) = [] \<and>
   filter writes_status (issued h (snd (setFifoThreshold level h))) = [] \<and>
   filter writes_status (issued h (snd (adjustTclkReception enable ev trigBit h))) = [] \<and>
   filter writes_status (issued h (snd (getTclkReception ev trigBit h))) = [] \<and>
   filter writes_status (issued h (snd (setResetFifoTimestampTrigger trigBit h))) = [] \<and>
   filter writes_status (issued h (snd (setWriteFifoTrigger trigBit h))) = []"
proof -
  have "filter is_write (issued h (snd (readFifo h))) = []"
    and "a16_16 (snd (readFifo h)) = a16_16 h"
    by (simp_all add: readFifo_def a16_get16_def a32_get_regFifo_def
        Register_FifoEntry_read_def readMem_def issued_def)
  moreover have "filter writes_status (issued h (snd (getStatus h))) =
      [Set16 RegStatus (a16_16 h RegStatus)]"
    by (simp add: getStatus_def a16_get16_def a16_set16_def issued_def)
  moreover have "filter writes_status (issued h (snd (setFifoThreshold level h))) = []"
    by (simp add: setFifoThreshold_def a16_set16_def issued_def)
  moreover have "filter writes_status (issued h (snd (setResetFifoTimestampTrigger trigBit h))) = []"
    and "filter writes_status (issued h (snd (setWriteFifoTrigger trigBit h))) = []"
    by (simp_all add: setResetFifoTimestampTrigger_def setWriteFifoTrigger_def a16_set8_def
        issued_def)
  ultimately show ?thesis
    by (simp only: HW_construct_no_status_write adjustTclkReception_no_status_write
        getTclkReception_no_status_write simp_thms)
qed

end
